theory Spec2Isabelle
  imports Main
begin

section \<open>Python values\<close>

text \<open>
  Values decoded from JSON text, as \<open>json.loads\<close> hands them to the handlers. Numbers are
  kept as integers: the handlers only test a decoded number for truth and try to iterate
  over it, and both behave the same for every non-zero number. An object is the list of
  its entries, in the order of the dict and with each key once.
\<close>

datatype json =
    JNull
  | JBool bool
  | JNum int
  | JStr string
  | JArr "json list"
  | JObj "(string \<times> json) list"

text \<open>
  A call that either returns a value or raises an exception of class \<open>Exception\<close>, the
  kind the \<open>except\<close> clauses around the calls of the database client, the signer and the
  resolver catch.
\<close>

datatype 'a py = Raised | Returned 'a

text \<open>Python truth of a decoded value (\<open>if v:\<close>).\<close>

fun py_truthy :: "json \<Rightarrow> bool" where
  "py_truthy JNull = False"
| "py_truthy (JBool b) = b"
| "py_truthy (JNum n) = (n \<noteq> 0)"
| "py_truthy (JStr s) = (s \<noteq> [])"
| "py_truthy (JArr xs) = (xs \<noteq> [])"
| "py_truthy (JObj kvs) = (kvs \<noteq> [])"

text \<open>
  \<open>for key in v\<close>: a list yields its elements, a string its characters, a dict its keys;
  anything else raises TypeError (\<open>None\<close> here).
\<close>

fun py_iter :: "json \<Rightarrow> json list option" where
  "py_iter (JArr xs) = Some xs"
| "py_iter (JStr s) = Some (map (\<lambda>c. JStr [c]) s)"
| "py_iter (JObj kvs) = Some (map (\<lambda>kv. JStr (fst kv)) kvs)"
| "py_iter v = None"

text \<open>Truth of an optional string (\<open>None\<close> and the empty string are false).\<close>

fun str_truthy :: "string option \<Rightarrow> bool" where
  "str_truthy None = False"
| "str_truthy (Some s) = (s \<noteq> [])"

text \<open>\<open>a or b\<close> on optional strings: \<open>a\<close> when it is true, otherwise \<open>b\<close>.\<close>

definition py_or :: "string option \<Rightarrow> string option \<Rightarrow> string option" where
  "py_or a b = (if str_truthy a then a else b)"

text \<open>
  The library functions the handlers call: \<open>json.loads\<close> (\<open>None\<close> when it raises),
  \<open>json.dumps\<close> (\<open>None\<close> when it raises) and \<open>str\<close>. They are taken as parameters.
\<close>

record pylib =
  json_loads :: "string \<Rightarrow> json option"
  json_dumps :: "json \<Rightarrow> string option"
  py_str :: "json \<Rightarrow> string"

section \<open>The database client (app/db\_client.py)\<close>

text \<open>
  A value read from the \<open>s3_result_paths\<close> column: the connector returns text; the status
  endpoint also provides for a value that is already a list.
\<close>

datatype colval = ColStr string | ColList "json list"

record upload_row =
  row_user_id :: "string option"
  row_processing_status :: "string option"
  row_s3_result_path :: "string option"
  row_s3_result_paths :: "colval option"

text \<open>The statements the client sends, with their parameters (the id comes first).\<close>

datatype stmt =
    UpdStatusPathPaths json string string string
  | UpdStatusPaths json string string
  | UpdStatusPath json string "string option"
  | UpdStatus json string
  | SelRecordPaths json
  | SelRecord json
  | SelOwner json

text \<open>
  The client together with the server behind it: whether \<open>DB_TABLE_NAME\<close> is configured,
  the table, the statements sent so far, and which statement the server rejects
  (\<open>db_faults d n q\<close>: the statement \<open>q\<close>, sent as number \<open>n\<close>, raises). Any pattern of
  rejections, lasting or transient, is one such function.
\<close>

record db_client =
  db_table_name_set :: bool
  db_rows :: "json \<rightharpoonup> upload_row"
  db_faults :: "nat \<Rightarrow> stmt \<Rightarrow> bool"
  db_issued :: "stmt list"

text \<open>An UPDATE changes the row with that id, and nothing when there is none.\<close>

fun apply_stmt :: "stmt \<Rightarrow> (json \<rightharpoonup> upload_row) \<Rightarrow> (json \<rightharpoonup> upload_row)" where
  "apply_stmt (UpdStatusPathPaths j st p ps) t =
     (case t j of None \<Rightarrow> t
      | Some r \<Rightarrow> t(j \<mapsto> r\<lparr>row_processing_status := Some st, row_s3_result_path := Some p,
                           row_s3_result_paths := Some (ColStr ps)\<rparr>))"
| "apply_stmt (UpdStatusPaths j st ps) t =
     (case t j of None \<Rightarrow> t
      | Some r \<Rightarrow> t(j \<mapsto> r\<lparr>row_processing_status := Some st,
                           row_s3_result_paths := Some (ColStr ps)\<rparr>))"
| "apply_stmt (UpdStatusPath j st p) t =
     (case t j of None \<Rightarrow> t
      | Some r \<Rightarrow> t(j \<mapsto> r\<lparr>row_processing_status := Some st, row_s3_result_path := p\<rparr>))"
| "apply_stmt (UpdStatus j st) t =
     (case t j of None \<Rightarrow> t
      | Some r \<Rightarrow> t(j \<mapsto> r\<lparr>row_processing_status := Some st\<rparr>))"
| "apply_stmt (SelRecordPaths j) t = t"
| "apply_stmt (SelRecord j) t = t"
| "apply_stmt (SelOwner j) t = t"

text \<open>\<open>cursor.execute\<close> followed by \<open>commit\<close>: \<open>False\<close> when it raises.\<close>

definition execute :: "stmt \<Rightarrow> db_client \<Rightarrow> bool \<times> db_client" where
  "execute q d =
     (let n = length (db_issued d); d' = d\<lparr>db_issued := db_issued d @ [q]\<rparr>
      in if db_faults d n q then (False, d')
         else (True, d'\<lparr>db_rows := apply_stmt q (db_rows d)\<rparr>))"

definition update_upload_status ::
    "json \<Rightarrow> string \<Rightarrow> string option \<Rightarrow> db_client \<Rightarrow> unit py \<times> db_client" where
  "update_upload_status job_id status s3_result_path d =
     (if \<not> db_table_name_set d then (Raised, d)
      else
        let q = (case s3_result_path of
                   Some p \<Rightarrow> UpdStatusPath job_id status (Some p)
                 | None \<Rightarrow> UpdStatus job_id status)
        in case execute q d of
             (True, d1) \<Rightarrow> (Returned (), d1)
           | (False, d1) \<Rightarrow>
               (case execute (UpdStatus job_id status) d1 of
                  (True, d2) \<Rightarrow> (Returned (), d2)
                | (False, d2) \<Rightarrow> (Raised, d2)))"

definition update_upload_status_with_paths ::
    "json \<Rightarrow> string \<Rightarrow> string option \<Rightarrow> string option \<Rightarrow> db_client \<Rightarrow> unit py \<times> db_client" where
  "update_upload_status_with_paths job_id status s3_result_path s3_result_paths d =
     (if \<not> db_table_name_set d then (Raised, d)
      else
        let q = (case (s3_result_paths, s3_result_path) of
                   (Some ps, Some p) \<Rightarrow> UpdStatusPathPaths job_id status p ps
                 | (Some ps, None) \<Rightarrow> UpdStatusPaths job_id status ps
                 | (None, Some p) \<Rightarrow> UpdStatusPath job_id status (Some p)
                 | (None, None) \<Rightarrow> UpdStatus job_id status)
        in case execute q d of
             (True, d1) \<Rightarrow> (Returned (), d1)
           | (False, d1) \<Rightarrow>
               (case execute (UpdStatusPath job_id status s3_result_path) d1 of
                  (True, d2) \<Rightarrow> (Returned (), d2)
                | (False, d2) \<Rightarrow> (Raised, d2)))"

text \<open>The dictionary \<open>get_upload_record\<close> returns.\<close>

record upload_record =
  rec_job_id :: json
  rec_user_id :: "string option"
  rec_status :: "string option"
  rec_s3_result_path :: "string option"
  rec_s3_result_paths :: "colval option"

definition get_upload_record :: "json \<Rightarrow> db_client \<Rightarrow> upload_record option py \<times> db_client" where
  "get_upload_record job_id d =
     (if \<not> db_table_name_set d then (Raised, d)
      else
        case execute (SelRecordPaths job_id) d of
          (True, d1) \<Rightarrow>
            (case db_rows d1 job_id of
               None \<Rightarrow> (Returned None, d1)
             | Some r \<Rightarrow>
                 (Returned (Some \<lparr>rec_job_id = job_id, rec_user_id = row_user_id r,
                                  rec_status = row_processing_status r,
                                  rec_s3_result_path = row_s3_result_path r,
                                  rec_s3_result_paths = row_s3_result_paths r\<rparr>), d1))
        | (False, d1) \<Rightarrow>
            (case execute (SelRecord job_id) d1 of
               (True, d2) \<Rightarrow>
                 (case db_rows d2 job_id of
                    None \<Rightarrow> (Returned None, d2)
                  | Some r \<Rightarrow>
                      (Returned (Some \<lparr>rec_job_id = job_id, rec_user_id = row_user_id r,
                                       rec_status = row_processing_status r,
                                       rec_s3_result_path = row_s3_result_path r,
                                       rec_s3_result_paths = None\<rparr>), d2))
             | (False, d2) \<Rightarrow> (Raised, d2)))"

definition get_job_owner :: "json \<Rightarrow> db_client \<Rightarrow> string option py \<times> db_client" where
  "get_job_owner job_id d =
     (if \<not> db_table_name_set d then (Raised, d)
      else
        case execute (SelOwner job_id) d of
          (True, d1) \<Rightarrow>
            (case db_rows d1 job_id of
               None \<Rightarrow> (Returned None, d1)
             | Some r \<Rightarrow> (Returned (row_user_id r), d1))
        | (False, d1) \<Rightarrow> (Raised, d1))"

section \<open>Collaborators outside the router\<close>

text \<open>
  Modelled from the spec: the S3 client (app/s3\_client.py). \<open>sign(location) -> url\<close> may
  fail per call: \<open>s3_sign c n key\<close> is the answer to the request for \<open>key\<close> made as
  call number \<open>n\<close>, \<open>None\<close> when it raises. The client records the keys it was asked for.
\<close>

record s3_client =
  s3_sign :: "nat \<Rightarrow> json \<Rightarrow> string option"
  s3_calls :: "json list"

definition create_presigned_get_url :: "json \<Rightarrow> s3_client \<Rightarrow> string option \<times> s3_client" where
  "create_presigned_get_url key c =
     (s3_sign c (length (s3_calls c)) key, c\<lparr>s3_calls := s3_calls c @ [key]\<rparr>)"

text \<open>
  Modelled from the spec: the connection registry (app/websocket\_manager.py), a mapping
  from job id to the registered connection and its owner. \<open>connect\<close> replaces any
  registration of the job id, \<open>disconnect\<close> removes it, and \<open>send_result_to_client\<close>
  returns true only if a registration exists and the send completes; it never raises.
  \<open>conn_send_ok\<close> says whether a send on a connection completes, \<open>delivered\<close> records
  what was sent.
\<close>

text \<open>
  What a call of the push can do as seen by its caller: return a boolean, raise an
  exception of class \<open>Exception\<close>, or raise one outside that class (a cancellation of the
  task, an interpreter exit), which an \<open>except Exception\<close> clause does not catch.
\<close>

datatype push_outcome = PushReturned bool | PushException | PushBaseException

record registration =
  reg_conn :: nat
  reg_owner :: string

record manager =
  active_connections :: "json \<rightharpoonup> registration"
  conn_send_ok :: "nat \<Rightarrow> bool"
  delivered :: "(nat \<times> json \<times> string list) list"

definition connect :: "json \<Rightarrow> nat \<Rightarrow> string \<Rightarrow> manager \<Rightarrow> manager" where
  "connect job_id ws user_id m =
     m\<lparr>active_connections := (active_connections m)(job_id \<mapsto> \<lparr>reg_conn = ws, reg_owner = user_id\<rparr>)\<rparr>"

definition disconnect :: "json \<Rightarrow> manager \<Rightarrow> manager" where
  "disconnect job_id m = m\<lparr>active_connections := (active_connections m)(job_id := None)\<rparr>"

definition send_result_to_client ::
    "manager \<Rightarrow> json \<Rightarrow> string list \<Rightarrow> push_outcome \<times> manager" where
  "send_result_to_client m job_id urls =
     (case active_connections m job_id of
        None \<Rightarrow> (PushReturned False, m)
      | Some r \<Rightarrow>
          if conn_send_ok m (reg_conn r)
          then (PushReturned True, m\<lparr>delivered := delivered m @ [(reg_conn r, job_id, urls)]\<rparr>)
          else (PushReturned False, m))"

text \<open>The module-level state of the router: the database client, the S3 client, the manager.\<close>

record world =
  w_db :: db_client
  w_s3 :: s3_client
  w_manager :: manager

section \<open>The completion webhook (handle\_webhook)\<close>

text \<open>
  How a handler ends without its normal answer: an \<open>HTTPException\<close> with its status
  code and detail; an exception of class \<open>Exception\<close> that nothing catches, which the
  framework answers with 500; or an exception outside that class that leaves the handler,
  which then produces no answer at all.
\<close>

datatype http_error = HTTPException nat string | Unhandled | Escaped

text \<open>
  The callback body, with the types the endpoint documents: a job id, a single location
  under either name, and a list of locations. A missing field and a null field are both
  \<open>None\<close>. A body that is not a JSON object of fields of these types is not described.
\<close>

record webhook_body =
  wb_job_id :: "string option"
  wb_s3_result_path :: "string option"
  wb_s3_result_key :: "string option"
  wb_s3_result_paths :: "string list option"

record webhook_response =
  wr_status_code :: nat
  wr_message :: string
  wr_result_urls :: "string list"

text \<open>
  Step 2: the JSON text of the list when the list is not empty, then the write with the
  list, and the older write when that raises. The outer handler prints whatever the older
  write raises and goes on.
\<close>

definition s3_paths_json :: "pylib \<Rightarrow> string list option \<Rightarrow> string option" where
  "s3_paths_json lib paths =
     (case paths of
        None \<Rightarrow> None
      | Some ps \<Rightarrow>
          if ps = [] then None
          else (case json_dumps lib (JArr (map JStr ps)) of
                  Some s \<Rightarrow> Some s
                | None \<Rightarrow> Some (py_str lib (JArr (map JStr ps)))))"

definition persist_completed ::
    "pylib \<Rightarrow> json \<Rightarrow> string \<Rightarrow> string list option \<Rightarrow> db_client \<Rightarrow> db_client" where
  "persist_completed lib job_id s3_key paths d =
     (case update_upload_status_with_paths job_id ''COMPLETED'' (Some s3_key)
             (s3_paths_json lib paths) d of
        (Returned u, d1) \<Rightarrow> d1
      | (Raised, d1) \<Rightarrow>
          (case update_upload_status job_id ''COMPLETED'' (Some s3_key) d1 of
             (Returned u, d2) \<Rightarrow> d2
           | (Raised, d2) \<Rightarrow> d2))"

text \<open>
  Step 3: the list of the body (\<open>all_keys\<close>), with the single location put in front
  when it is not in it.
\<close>

definition all_keys :: "string \<Rightarrow> string list option \<Rightarrow> string list" where
  "all_keys s3_key paths =
     (let ks = (case paths of None \<Rightarrow> [] | Some ps \<Rightarrow> ps)
      in if s3_key \<noteq> [] \<and> s3_key \<notin> set ks then s3_key # ks else ks)"

text \<open>The loop over the keys: a key whose URL cannot be made is skipped.\<close>

fun presign_each :: "json list \<Rightarrow> s3_client \<Rightarrow> string list \<times> s3_client" where
  "presign_each [] c = ([], c)"
| "presign_each (key # keys) c =
     (case create_presigned_get_url key c of
        (Some url, c1) \<Rightarrow> (case presign_each keys c1 of (urls, c2) \<Rightarrow> (url # urls, c2))
      | (None, c1) \<Rightarrow> presign_each keys c1)"

text \<open>
  Step 3 as a whole: a URL for every key; when none could be made, one more request for
  the single location, and \<open>None\<close> (the handler raises 500) when that fails too.
\<close>

definition generate_urls ::
    "string \<Rightarrow> string list option \<Rightarrow> s3_client \<Rightarrow> string list option \<times> s3_client" where
  "generate_urls s3_key paths c =
     (case presign_each (map JStr (all_keys s3_key paths)) c of
        (presigned_urls, c1) \<Rightarrow>
          if presigned_urls = [] then
            (case create_presigned_get_url (JStr s3_key) c1 of
               (Some url, c2) \<Rightarrow> (Some [url], c2)
             | (None, c2) \<Rightarrow> (None, c2))
          else (Some presigned_urls, c1))"

text \<open>
  Step 4 and the answer: the push is called inside \<open>try\<close> with \<open>except Exception\<close>, so an
  exception of class \<open>Exception\<close> counts as not pushed, and one outside that class leaves
  the handler before any answer is built (\<open>None\<close>).
\<close>

type_synonym push_fn = "manager \<Rightarrow> json \<Rightarrow> string list \<Rightarrow> push_outcome \<times> manager"

definition accepted :: "bool \<Rightarrow> string list \<Rightarrow> webhook_response" where
  "accepted pushed presigned_urls =
     \<lparr>wr_status_code = 202,
      wr_message = (if pushed then ''Result pushed successfully.''
                    else ''Result URL(s) generated.''),
      wr_result_urls = presigned_urls\<rparr>"

definition push_and_respond ::
    "push_fn \<Rightarrow> json \<Rightarrow> string list \<Rightarrow> manager \<Rightarrow> webhook_response option \<times> manager" where
  "push_and_respond push job_id presigned_urls m =
     (case push m job_id presigned_urls of
        (PushReturned pushed, m1) \<Rightarrow> (Some (accepted pushed presigned_urls), m1)
      | (PushException, m1) \<Rightarrow> (Some (accepted False presigned_urls), m1)
      | (PushBaseException, m1) \<Rightarrow> (None, m1))"

text \<open>Steps 2 to 4 for a body that has a job id \<open>j\<close> and a single location \<open>k\<close>.\<close>

definition complete_job ::
    "pylib \<Rightarrow> push_fn \<Rightarrow> string \<Rightarrow> string \<Rightarrow> string list option \<Rightarrow> world
      \<Rightarrow> (http_error + webhook_response) \<times> world" where
  "complete_job lib push j k paths w =
     (let d1 = persist_completed lib (JStr j) k paths (w_db w)
      in case generate_urls k paths (w_s3 w) of
           (None, c1) \<Rightarrow>
             (Inl (HTTPException 500 ''Failed to generate presigned result URL(s)''),
              \<lparr>w_db = d1, w_s3 = c1, w_manager = w_manager w\<rparr>)
         | (Some presigned_urls, c1) \<Rightarrow>
             (case push_and_respond push (JStr j) presigned_urls (w_manager w) of
                (Some resp, m1) \<Rightarrow> (Inr resp, \<lparr>w_db = d1, w_s3 = c1, w_manager = m1\<rparr>)
              | (None, m1) \<Rightarrow> (Inl Escaped, \<lparr>w_db = d1, w_s3 = c1, w_manager = m1\<rparr>)))"

text \<open>
  The handler. \<open>verify\<close> is what the signature check raised, if anything; \<open>push\<close> is the
  manager's \<open>send_result_to_client\<close>. The body is refused when the job id or the single
  location (\<open>s3_result_path\<close>, or else \<open>s3_result_key\<close>) is missing or empty.
\<close>

definition handle_webhook ::
    "pylib \<Rightarrow> push_fn \<Rightarrow> http_error option \<Rightarrow> webhook_body \<Rightarrow> world
      \<Rightarrow> (http_error + webhook_response) \<times> world" where
  "handle_webhook lib push verify data w =
     (case verify of
        Some e \<Rightarrow> (Inl e, w)
      | None \<Rightarrow>
          (case (wb_job_id data, py_or (wb_s3_result_path data) (wb_s3_result_key data)) of
             (Some j, Some k) \<Rightarrow>
               (if j = [] \<or> k = []
                then (Inl (HTTPException 400 ''job_id and s3_result_path required''), w)
                else complete_job lib push j k (wb_s3_result_paths data) w)
           | _ \<Rightarrow> (Inl (HTTPException 400 ''job_id and s3_result_path required''), w)))"

section \<open>The status endpoint (get\_result\_status)\<close>

record status_response =
  sr_job_id :: string
  sr_status :: "string option"
  sr_result_url :: "string option"
  sr_result_urls :: "string list option"

text \<open>
  The keys of a COMPLETED record: the stored list when it is true (decoded when it is
  text, the whole text as one key when it does not decode), otherwise the single
  location when it is true, otherwise nothing.
\<close>

definition stored_keys :: "pylib \<Rightarrow> upload_record \<Rightarrow> json option" where
  "stored_keys lib rec =
     (let single = (case rec_s3_result_path rec of
                      None \<Rightarrow> None
                    | Some k \<Rightarrow> if k = [] then None else Some (JArr [JStr k]))
      in case rec_s3_result_paths rec of
           None \<Rightarrow> single
         | Some (ColStr s) \<Rightarrow>
             if s = [] then single
             else (case json_loads lib s of
                     Some v \<Rightarrow> Some v
                   | None \<Rightarrow> Some (JArr [JStr s]))
         | Some (ColList xs) \<Rightarrow> if xs = [] then single else Some (JArr xs))"

definition status_answer :: "string \<Rightarrow> string option \<Rightarrow> string list option \<Rightarrow> status_response" where
  "status_answer job_id status result_urls =
     \<lparr>sr_job_id = job_id, sr_status = status,
      sr_result_url = (case result_urls of Some (u # us) \<Rightarrow> Some u | _ \<Rightarrow> None),
      sr_result_urls = result_urls\<rparr>"

definition get_result_status ::
    "pylib \<Rightarrow> string \<Rightarrow> world \<Rightarrow> (http_error + status_response) \<times> world" where
  "get_result_status lib job_id w =
     (if job_id = [] then (Inl (HTTPException 400 ''job_id is required''), w)
      else
        case get_upload_record (JStr job_id) (w_db w) of
          (Raised, d1) \<Rightarrow> (Inl (HTTPException 500 ''internal error''), w\<lparr>w_db := d1\<rparr>)
        | (Returned None, d1) \<Rightarrow> (Inl (HTTPException 404 ''job not found''), w\<lparr>w_db := d1\<rparr>)
        | (Returned (Some rec), d1) \<Rightarrow>
            if rec_status rec = Some ''COMPLETED'' then
              (case stored_keys lib rec of
                 None \<Rightarrow> (Inr (status_answer job_id (rec_status rec) None), w\<lparr>w_db := d1\<rparr>)
               | Some keys \<Rightarrow>
                   if \<not> py_truthy keys
                   then (Inr (status_answer job_id (rec_status rec) None), w\<lparr>w_db := d1\<rparr>)
                   else
                     (case py_iter keys of
                        None \<Rightarrow> (Inl Unhandled, w\<lparr>w_db := d1\<rparr>)
                      | Some ks \<Rightarrow>
                          (case presign_each ks (w_s3 w) of
                             (presigned_list, c1) \<Rightarrow>
                               (Inr (status_answer job_id (rec_status rec)
                                       (if presigned_list = [] then None else Some presigned_list)),
                                w\<lparr>w_db := d1, w_s3 := c1\<rparr>))))
            else (Inr (status_answer job_id (rec_status rec) None), w\<lparr>w_db := d1\<rparr>))"

section \<open>The registration handshake (websocket\_preconnect)\<close>

text \<open>
  What the handler does to the outside, in order: a JSON message sent, the connection
  closed with a code, and the manager's \<open>connect\<close> and \<open>disconnect\<close> called.
\<close>

datatype hs_event =
    SendJson json
  | Close nat
  | Connect json nat string
  | Disconnect json

text \<open>
  The accepted connection: its handle, the \<open>sec-websocket-protocol\<close> header, the \<open>token\<close>
  query parameter, the cookies (\<open>None\<close> when reading them raises), the text messages the
  client sends before it disconnects, and which sends and closes raise. The client sends
  finitely many messages and then disconnects; a connection that never ends has no final
  state and is not described. Identities are strings, on which \<open>str\<close> is the identity.
\<close>

record ws_client =
  ws_id :: nat
  ws_protocol :: "string option"
  ws_query_token :: "string option"
  ws_cookies :: "(string \<rightharpoonup> string) option"
  ws_incoming :: "string list"
  ws_raises :: "hs_event \<Rightarrow> bool"

text \<open>\<open>str.strip()\<close> on a header value: white space is removed at both ends.\<close>

definition py_isspace :: "char \<Rightarrow> bool" where
  "py_isspace c =
     (let n = (of_char c :: nat)
      in (9 \<le> n \<and> n \<le> 13) \<or> (28 \<le> n \<and> n \<le> 32) \<or> n = 133 \<or> n = 160)"

definition strip :: "string \<Rightarrow> string" where
  "strip s = rev (dropWhile py_isspace (rev (dropWhile py_isspace s)))"

text \<open>\<open>proto.split(",")[0].strip()\<close>: the text before the first comma, stripped.\<close>

definition first_subprotocol :: "string \<Rightarrow> string" where
  "first_subprotocol proto = strip (takeWhile (\<lambda>c. c \<noteq> CHR '','') proto)"

text \<open>The token: the subprotocol, then the query parameter, then a cookie.\<close>

definition extract_token :: "ws_client \<Rightarrow> string option" where
  "extract_token ws =
     (let token0 = (case ws_protocol ws of
                      None \<Rightarrow> None
                    | Some proto \<Rightarrow> if proto = [] then None else Some (first_subprotocol proto));
          token1 = (if str_truthy token0 then token0 else ws_query_token ws)
      in if str_truthy token1 then token1
         else
           let cookie_token = (case ws_cookies ws of
                                 None \<Rightarrow> None
                               | Some cookies \<Rightarrow> py_or (cookies ''id_token'') (cookies ''access_token''))
           in if str_truthy cookie_token then cookie_token else token1)"

text \<open>
  \<open>get_user_id_from_token\<close> (app/auth\_utils.py) is a parameter: it returns an identity
  or \<open>None\<close>, or raises. No token, and a resolver that raises, both give no identity.
\<close>

type_synonym resolver = "string \<Rightarrow> string option py"

definition resolve_user_id :: "resolver \<Rightarrow> string option \<Rightarrow> string option" where
  "resolve_user_id get_user_id_from_token token =
     (case token of
        None \<Rightarrow> None
      | Some t \<Rightarrow>
          if t = [] then None
          else (case get_user_id_from_token t of
                  Returned u \<Rightarrow> u
                | Raised \<Rightarrow> None))"

text \<open>
  An error message followed by a close: the events that happened, and whether one of the
  two calls raised.
\<close>

definition send_and_close :: "ws_client \<Rightarrow> json \<Rightarrow> nat \<Rightarrow> hs_event list \<times> bool" where
  "send_and_close ws payload code =
     (if ws_raises ws (SendJson payload) then ([], True)
      else if ws_raises ws (Close code) then ([SendJson payload], True)
      else ([SendJson payload, Close code], False))"

text \<open>
  The loop that keeps the connection: every further message is read and dropped, until
  the client disconnects.
\<close>

fun drain :: "string list \<Rightarrow> string list" where
  "drain [] = []"
| "drain (msg # msgs) = drain msgs"

record hs_result =
  hs_trace :: "hs_event list"
  hs_unread :: "string list"
  hs_world :: world

text \<open>
  The handler's exception clauses once \<open>temp_id\<close> is set: the manager's \<open>disconnect\<close> is
  called for that job id.
\<close>

definition cleanup :: "json \<Rightarrow> hs_event list \<Rightarrow> string list \<Rightarrow> world \<Rightarrow> hs_result" where
  "cleanup temp_id tr unread w =
     \<lparr>hs_trace = tr @ [Disconnect temp_id], hs_unread = unread,
      hs_world = w\<lparr>w_manager := disconnect temp_id (w_manager w)\<rparr>\<rparr>"

text \<open>Steps 5 to 9, for a register message that names the job id \<open>job_id\<close>.\<close>

definition register_job ::
    "resolver \<Rightarrow> ws_client \<Rightarrow> json \<Rightarrow> string list \<Rightarrow> world \<Rightarrow> hs_result" where
  "register_job get_user_id_from_token ws job_id rest w =
     (let user_id = resolve_user_id get_user_id_from_token (extract_token ws)
      in case get_job_owner job_id (w_db w) of
           (Raised, d1) \<Rightarrow> cleanup job_id [] rest (w\<lparr>w_db := d1\<rparr>)
         | (Returned None, d1) \<Rightarrow>
             (case send_and_close ws (JObj [(''error'', JStr ''job_not_found'')]) 1008 of
                (tr, True) \<Rightarrow> cleanup job_id tr rest (w\<lparr>w_db := d1\<rparr>)
              | (tr, False) \<Rightarrow> \<lparr>hs_trace = tr, hs_unread = rest, hs_world = w\<lparr>w_db := d1\<rparr>\<rparr>)
         | (Returned (Some owner_id), d1) \<Rightarrow>
             (case user_id of
                None \<Rightarrow>
                  (case send_and_close ws (JObj [(''error'', JStr ''forbidden'')]) 1008 of
                     (tr, True) \<Rightarrow> cleanup job_id tr rest (w\<lparr>w_db := d1\<rparr>)
                   | (tr, False) \<Rightarrow> \<lparr>hs_trace = tr, hs_unread = rest, hs_world = w\<lparr>w_db := d1\<rparr>\<rparr>)
              | Some u \<Rightarrow>
                  if u \<noteq> owner_id then
                    (case send_and_close ws (JObj [(''error'', JStr ''forbidden'')]) 1008 of
                       (tr, True) \<Rightarrow> cleanup job_id tr rest (w\<lparr>w_db := d1\<rparr>)
                     | (tr, False) \<Rightarrow> \<lparr>hs_trace = tr, hs_unread = rest, hs_world = w\<lparr>w_db := d1\<rparr>\<rparr>)
                  else
                    let w1 = w\<lparr>w_db := d1, w_manager := connect job_id (ws_id ws) u (w_manager w)\<rparr>;
                        ack = SendJson (JObj [(''status'', JStr ''registered''), (''job_id'', job_id)])
                    in if ws_raises ws ack
                       then cleanup job_id [Connect job_id (ws_id ws) u] rest w1
                       else cleanup job_id [Connect job_id (ws_id ws) u, ack] (drain rest) w1))"

text \<open>
  The handler, after the upgrade is accepted. Nothing is cleaned up when the client
  leaves before its first message, and when an exception is caught before \<open>temp_id\<close> is
  set (a message that decodes to something other than an object).
\<close>

definition websocket_preconnect :: "pylib \<Rightarrow> resolver \<Rightarrow> ws_client \<Rightarrow> world \<Rightarrow> hs_result" where
  "websocket_preconnect lib get_user_id_from_token ws w =
     (case ws_incoming ws of
        [] \<Rightarrow> \<lparr>hs_trace = [], hs_unread = [], hs_world = w\<rparr>
      | msg # rest \<Rightarrow>
          (case json_loads lib msg of
             None \<Rightarrow>
               \<lparr>hs_trace = fst (send_and_close ws (JObj [(''error'', JStr ''invalid_json'')]) 1003),
                hs_unread = rest, hs_world = w\<rparr>
           | Some (JObj payload) \<Rightarrow>
               (case map_of payload ''job_id'' of
                  None \<Rightarrow>
                    \<lparr>hs_trace = fst (send_and_close ws
                        (JObj [(''error'', JStr ''expected register with job_id'')]) 1003),
                     hs_unread = rest, hs_world = w\<rparr>
                | Some job_id \<Rightarrow>
                    if map_of payload ''action'' = Some (JStr ''register'') \<and> py_truthy job_id
                    then register_job get_user_id_from_token ws job_id rest w
                    else
                      \<lparr>hs_trace = fst (send_and_close ws
                          (JObj [(''error'', JStr ''expected register with job_id'')]) 1003),
                       hs_unread = rest, hs_world = w\<rparr>)
           | Some other \<Rightarrow> \<lparr>hs_trace = [], hs_unread = rest, hs_world = w\<rparr>))"

section \<open>Sample data\<close>

text \<open>
  The data of the examples below: a job \<open>J1\<close> of user \<open>U1\<close>, a store that rejects nothing,
  a signer that answers every string key, and the library functions on the texts that
  occur in the examples (every other text they meet is not JSON).
\<close>

definition quoted :: "string \<Rightarrow> string" where
  "quoted s = CHR 0x22 # s @ [CHR 0x22]"

definition text_a_b :: string where
  "text_a_b = ''['' @ quoted ''a'' @ '', '' @ quoted ''b'' @ '']''"

definition text_b :: string where
  "text_b = ''['' @ quoted ''b'' @ '']''"

definition text_b_b :: string where
  "text_b_b = ''['' @ quoted ''b'' @ '', '' @ quoted ''b'' @ '']''"

definition text_register_J1 :: string where
  "text_register_J1 =
     ''{'' @ quoted ''action'' @ '':'' @ quoted ''register'' @ '','' @ quoted ''job_id'' @ '':''
       @ quoted ''J1'' @ ''}''"

definition sample_lib :: pylib where
  "sample_lib =
     \<lparr>json_loads = (\<lambda>s.
        if s = text_a_b then Some (JArr [JStr ''a'', JStr ''b''])
        else if s = text_b then Some (JArr [JStr ''b''])
        else if s = text_b_b then Some (JArr [JStr ''b'', JStr ''b''])
        else if s = text_register_J1
          then Some (JObj [(''action'', JStr ''register''), (''job_id'', JStr ''J1'')])
        else None),
      json_dumps = (\<lambda>v.
        if v = JArr [JStr ''a'', JStr ''b''] then Some text_a_b
        else if v = JArr [JStr ''b''] then Some text_b
        else if v = JArr [JStr ''b'', JStr ''b''] then Some text_b_b
        else None),
      py_str = (\<lambda>v. ''?'')\<rparr>"

definition sample_row :: upload_row where
  "sample_row =
     \<lparr>row_user_id = Some ''U1'', row_processing_status = Some ''PENDING'',
      row_s3_result_path = None, row_s3_result_paths = None\<rparr>"

definition sample_db :: db_client where
  "sample_db =
     \<lparr>db_table_name_set = True, db_rows = [JStr ''J1'' \<mapsto> sample_row],
      db_faults = (\<lambda>n q. False), db_issued = []\<rparr>"

definition sample_s3 :: s3_client where
  "sample_s3 =
     \<lparr>s3_sign = (\<lambda>n key. case key of JStr k \<Rightarrow> Some (''https://s3/'' @ k) | _ \<Rightarrow> None),
      s3_calls = []\<rparr>"

definition idle_manager :: manager where
  "idle_manager =
     \<lparr>active_connections = Map.empty, conn_send_ok = (\<lambda>c. True), delivered = []\<rparr>"

definition live_manager :: manager where
  "live_manager =
     \<lparr>active_connections = [JStr ''J1'' \<mapsto> \<lparr>reg_conn = 7, reg_owner = ''U1''\<rparr>],
      conn_send_ok = (\<lambda>c. True), delivered = []\<rparr>"

definition sample_world :: world where
  "sample_world = \<lparr>w_db = sample_db, w_s3 = sample_s3, w_manager = idle_manager\<rparr>"

definition live_world :: world where
  "live_world = \<lparr>w_db = sample_db, w_s3 = sample_s3, w_manager = live_manager\<rparr>"

text \<open>Bodies of the callback for \<open>J1\<close>.\<close>

definition body_single :: webhook_body where
  "body_single =
     \<lparr>wb_job_id = Some ''J1'', wb_s3_result_path = Some ''out/J1.zip'',
      wb_s3_result_key = None, wb_s3_result_paths = None\<rparr>"

definition body_list_only :: webhook_body where
  "body_list_only =
     \<lparr>wb_job_id = Some ''J1'', wb_s3_result_path = None,
      wb_s3_result_key = None, wb_s3_result_paths = Some [''a'']\<rparr>"

definition body_a_b :: webhook_body where
  "body_a_b =
     \<lparr>wb_job_id = Some ''J1'', wb_s3_result_path = Some ''a'',
      wb_s3_result_key = None, wb_s3_result_paths = Some [''a'', ''b'']\<rparr>"



text \<open>A store that rejects every statement, and one that rejects only the write with the list.\<close>

definition down_db :: db_client where
  "down_db =
     \<lparr>db_table_name_set = True, db_rows = [JStr ''J1'' \<mapsto> sample_row],
      db_faults = (\<lambda>n q. True), db_issued = []\<rparr>"

definition down_world :: world where
  "down_world = \<lparr>w_db = down_db, w_s3 = sample_s3, w_manager = idle_manager\<rparr>"

definition narrow_db :: db_client where
  "narrow_db =
     \<lparr>db_table_name_set = True, db_rows = [JStr ''J1'' \<mapsto> sample_row],
      db_faults = (\<lambda>n q. case q of UpdStatusPathPaths j st p ps \<Rightarrow> True | _ \<Rightarrow> False),
      db_issued = []\<rparr>"

definition narrow_world :: world where
  "narrow_world = \<lparr>w_db = narrow_db, w_s3 = sample_s3, w_manager = idle_manager\<rparr>"

text \<open>Connections that ask to register for \<open>J1\<close>, a resolver, and a store without the job.\<close>

definition sample_resolver :: resolver where
  "sample_resolver =
     (\<lambda>t. if t = ''Bearer tok-U1'' then Returned (Some ''U1'')
          else if t = ''Bearer tok-U2'' then Returned (Some ''U2'')
          else Returned None)"

definition ws_U1 :: ws_client where
  "ws_U1 =
     \<lparr>ws_id = 7, ws_protocol = Some ''Bearer tok-U1'', ws_query_token = None,
      ws_cookies = Some Map.empty, ws_incoming = [text_register_J1],
      ws_raises = (\<lambda>ev. False)\<rparr>"

definition ws_U2 :: ws_client where
  "ws_U2 =
     \<lparr>ws_id = 8, ws_protocol = None, ws_query_token = Some ''Bearer tok-U2'',
      ws_cookies = Some Map.empty, ws_incoming = [text_register_J1],
      ws_raises = (\<lambda>ev. False)\<rparr>"

definition empty_db :: db_client where
  "empty_db =
     \<lparr>db_table_name_set = True, db_rows = Map.empty, db_faults = (\<lambda>n q. False), db_issued = []\<rparr>"

definition empty_world :: world where
  "empty_world = \<lparr>w_db = empty_db, w_s3 = sample_s3, w_manager = idle_manager\<rparr>"

text \<open>A state whose row of \<open>J1\<close> is COMPLETED with the given single location and list column.\<close>

definition world_with_paths :: "string option \<Rightarrow> colval option \<Rightarrow> world" where
  "world_with_paths path paths =
     \<lparr>w_db = sample_db\<lparr>db_rows := [JStr ''J1'' \<mapsto>
               \<lparr>row_user_id = Some ''U1'', row_processing_status = Some ''COMPLETED'',
                row_s3_result_path = path, row_s3_result_paths = paths\<rparr>]\<rparr>,
      w_s3 = sample_s3, w_manager = idle_manager\<rparr>"


definition body_a_b_b :: webhook_body where
  "body_a_b_b =
     \<lparr>wb_job_id = Some ''J1'', wb_s3_result_path = Some ''a'',
      wb_s3_result_key = None, wb_s3_result_paths = Some [''b'', ''b'']\<rparr>"

text \<open>The state after a callback for \<open>J1\<close> that stored the single location and the list text.\<close>

definition completed_world :: "string \<Rightarrow> string \<Rightarrow> json list \<Rightarrow> manager \<Rightarrow> world" where
  "completed_world k t calls m =
     \<lparr>w_db = sample_db\<lparr>db_issued := [UpdStatusPathPaths (JStr ''J1'') ''COMPLETED'' k t],
               db_rows := [JStr ''J1'' \<mapsto>
                 \<lparr>row_user_id = Some ''U1'', row_processing_status = Some ''COMPLETED'',
                  row_s3_result_path = Some k, row_s3_result_paths = Some (ColStr t)\<rparr>]\<rparr>,
      w_s3 = sample_s3\<lparr>s3_calls := calls\<rparr>,
      w_manager = m\<rparr>"

section \<open>Lemmas about the steps\<close>

lemma presign_each_eq:
  "presign_each ks c =
     (List.map_filter (\<lambda>(i, key). s3_sign c i key) (enumerate (length (s3_calls c)) ks),
      c\<lparr>s3_calls := s3_calls c @ ks\<rparr>)"
proof (induction ks arbitrary: c)
  case Nil
  show ?case by simp
next
  case (Cons key ks)
  show ?case
    by (simp add: Cons.IH create_presigned_get_url_def split: option.split)
qed

lemma push_and_respond_fst:
  "fst (push_and_respond push job urls m) =
     (case fst (push m job urls) of
        PushReturned pushed \<Rightarrow> Some (accepted pushed urls)
      | PushException \<Rightarrow> Some (accepted False urls)
      | PushBaseException \<Rightarrow> None)"
  by (simp add: push_and_respond_def accepted_def split: prod.split push_outcome.split)

lemma complete_job_fst:
  "fst (complete_job lib push j k paths w) =
     (case fst (generate_urls k paths (w_s3 w)) of
        None \<Rightarrow> Inl (HTTPException 500 ''Failed to generate presigned result URL(s)'')
      | Some urls \<Rightarrow>
          (case fst (push_and_respond push (JStr j) urls (w_manager w)) of
             Some resp \<Rightarrow> Inr resp
           | None \<Rightarrow> Inl Escaped))"
  by (simp add: complete_job_def Let_def split: prod.split option.split)

lemma sample_generate_single:
  "generate_urls ''out/J1.zip'' None sample_s3 =
     (Some [''https://s3/out/J1.zip''], sample_s3\<lparr>s3_calls := [JStr ''out/J1.zip'']\<rparr>)"
  by (simp add: generate_urls_def all_keys_def create_presigned_get_url_def sample_s3_def)


lemma complete_job_s3:
  "w_s3 (snd (complete_job lib push j k paths w)) = snd (generate_urls k paths (w_s3 w))"
  by (simp add: complete_job_def Let_def split: prod.split option.split)

lemma complete_job_db:
  "w_db (snd (complete_job lib push j k paths w)) = persist_completed lib (JStr j) k paths (w_db w)"
  by (simp add: complete_job_def Let_def split: prod.split option.split)

lemma handle_webhook_complete:
  assumes "wb_job_id data = Some j" and "j \<noteq> []"
    and "py_or (wb_s3_result_path data) (wb_s3_result_key data) = Some k" and "k \<noteq> []"
  shows "handle_webhook lib push None data w = complete_job lib push j k (wb_s3_result_paths data) w"
  using assms by (simp add: handle_webhook_def)

lemma persist_completed_eq:
  assumes "db_table_name_set d"
  shows "persist_completed lib job k paths d =
     (let n = length (db_issued d);
          rich = (case s3_paths_json lib paths of
                    Some ps \<Rightarrow> UpdStatusPathPaths job ''COMPLETED'' k ps
                  | None \<Rightarrow> UpdStatusPath job ''COMPLETED'' (Some k));
          basic = UpdStatusPath job ''COMPLETED'' (Some k);
          least = UpdStatus job ''COMPLETED''
      in if \<not> db_faults d n rich
           then d\<lparr>db_issued := db_issued d @ [rich], db_rows := apply_stmt rich (db_rows d)\<rparr>
         else if \<not> db_faults d (n + 1) basic
           then d\<lparr>db_issued := db_issued d @ [rich, basic], db_rows := apply_stmt basic (db_rows d)\<rparr>
         else if \<not> db_faults d (n + 2) basic
           then d\<lparr>db_issued := db_issued d @ [rich, basic, basic],
                  db_rows := apply_stmt basic (db_rows d)\<rparr>
         else if \<not> db_faults d (n + 3) least
           then d\<lparr>db_issued := db_issued d @ [rich, basic, basic, least],
                  db_rows := apply_stmt least (db_rows d)\<rparr>
         else d\<lparr>db_issued := db_issued d @ [rich, basic, basic, least]\<rparr>)"
  using assms
  by (cases "s3_paths_json lib paths")
     (simp_all add: persist_completed_def update_upload_status_with_paths_def
        update_upload_status_def execute_def Let_def eval_nat_numeral split: option.split)

lemma complete_job_fst_db:
  "fst (complete_job lib push j k paths (w\<lparr>w_db := d2\<rparr>)) = fst (complete_job lib push j k paths w)"
  by (simp add: complete_job_fst split: option.split)

lemma websocket_preconnect_register:
  assumes "ws_incoming ws = msg # rest"
    and "json_loads lib msg = Some (JObj payload)"
    and "map_of payload ''action'' = Some (JStr ''register'')"
    and "map_of payload ''job_id'' = Some job_id" and "py_truthy job_id"
  shows "websocket_preconnect lib resolve ws w = register_job resolve ws job_id rest w"
  using assms by (simp add: websocket_preconnect_def)

lemma register_job_not_found:
  assumes "fst (get_job_owner job_id (w_db w)) = Returned None"
  shows "register_job resolve ws job_id rest w =
     (let d1 = snd (get_job_owner job_id (w_db w));
          not_found = JObj [(''error'', JStr ''job_not_found'')]
      in case send_and_close ws not_found 1008 of
           (tr, True) \<Rightarrow> cleanup job_id tr rest (w\<lparr>w_db := d1\<rparr>)
         | (tr, False) \<Rightarrow> \<lparr>hs_trace = tr, hs_unread = rest, hs_world = w\<lparr>w_db := d1\<rparr>\<rparr>)"
  using assms by (cases "get_job_owner job_id (w_db w)") (simp add: register_job_def)

lemma register_job_owner:
  assumes "fst (get_job_owner job_id (w_db w)) = Returned (Some owner_id)"
  shows "register_job resolve ws job_id rest w =
     (let d1 = snd (get_job_owner job_id (w_db w));
          forbidden = JObj [(''error'', JStr ''forbidden'')]
      in if resolve_user_id resolve (extract_token ws) = Some owner_id then
           let w1 = w\<lparr>w_db := d1, w_manager := connect job_id (ws_id ws) owner_id (w_manager w)\<rparr>;
               ack = SendJson (JObj [(''status'', JStr ''registered''), (''job_id'', job_id)])
           in if ws_raises ws ack
              then cleanup job_id [Connect job_id (ws_id ws) owner_id] rest w1
              else cleanup job_id [Connect job_id (ws_id ws) owner_id, ack] (drain rest) w1
         else
           case send_and_close ws forbidden 1008 of
             (tr, True) \<Rightarrow> cleanup job_id tr rest (w\<lparr>w_db := d1\<rparr>)
           | (tr, False) \<Rightarrow> \<lparr>hs_trace = tr, hs_unread = rest, hs_world = w\<lparr>w_db := d1\<rparr>\<rparr>)"
  using assms
  by (cases "get_job_owner job_id (w_db w)")
     (auto simp add: register_job_def Let_def split: option.split)

lemma get_result_status_found:
  assumes "job_id \<noteq> []"
    and "fst (get_upload_record (JStr job_id) (w_db w)) = Returned (Some rec)"
  shows "fst (get_result_status lib job_id w) =
     (if rec_status rec = Some ''COMPLETED'' then
        (case stored_keys lib rec of
           None \<Rightarrow> Inr (status_answer job_id (rec_status rec) None)
         | Some keys \<Rightarrow>
             if \<not> py_truthy keys then Inr (status_answer job_id (rec_status rec) None)
             else (case py_iter keys of
                     None \<Rightarrow> Inl Unhandled
                   | Some ks \<Rightarrow>
                       let urls = List.map_filter (\<lambda>(i, key). s3_sign (w_s3 w) i key)
                                    (enumerate (length (s3_calls (w_s3 w))) ks)
                       in Inr (status_answer job_id (rec_status rec)
                                 (if urls = [] then None else Some urls))))
      else Inr (status_answer job_id (rec_status rec) None))"
  using assms
  by (cases "get_upload_record (JStr job_id) (w_db w)")
     (simp add: get_result_status_def presign_each_eq Let_def split: option.split)

lemma get_result_status_calls:
  assumes "job_id \<noteq> []"
    and "fst (get_upload_record (JStr job_id) (w_db w)) = Returned (Some rec)"
    and "rec_status rec = Some ''COMPLETED''"
    and "stored_keys lib rec = Some keys" and "py_truthy keys" and "py_iter keys = Some ks"
  shows "s3_calls (w_s3 (snd (get_result_status lib job_id w))) = s3_calls (w_s3 w) @ ks"
  using assms
  by (cases "get_upload_record (JStr job_id) (w_db w)")
     (simp add: get_result_status_def presign_each_eq)

lemma sample_s3_sign: "s3_sign sample_s3 n (JStr k) = Some (''https://s3/'' @ k)"
  by (simp add: sample_s3_def)

lemma sample_s3_calls: "s3_calls sample_s3 = []"
  by (simp add: sample_s3_def)

lemma map_filter_enumerate_const:
  assumes "\<And>i key. sign i key = f key"
  shows "List.map_filter (\<lambda>(i, key). sign i key) (enumerate n ks) = List.map_filter f ks"
  by (induction ks arbitrary: n) (simp_all add: assms split: option.split)

lemma map_filter_Nil_None:
  "List.map_filter f xs = [] \<Longrightarrow> x \<in> set xs \<Longrightarrow> f x = None"
  by (induction xs) (auto split: option.splits)

lemma all_keys_listed: "k \<in> set ps \<Longrightarrow> all_keys k (Some ps) = ps"
  by (simp add: all_keys_def)

lemma send_result_to_client_delivered:
  assumes "active_connections m job = Some reg" and "conn_send_ok m (reg_conn reg)"
  shows "delivered (snd (push_and_respond send_result_to_client job urls m)) =
           delivered m @ [(reg_conn reg, job, urls)]"
  using assms by (simp add: push_and_respond_def accepted_def send_result_to_client_def)

lemma push_matches_status_query:
  assumes job: "wb_job_id data = Some j" "j \<noteq> []"
    and key: "py_or (wb_s3_result_path data) (wb_s3_result_key data) = Some k" "k \<noteq> []"
    and paths: "wb_s3_result_paths data = Some ps" "k \<in> set ps"
    and dumps: "json_dumps lib (JArr (map JStr ps)) = Some t" "t \<noteq> []"
    and loads: "json_loads lib t = Some (JArr (map JStr ps))"
    and db: "db_table_name_set (w_db w)" "db_rows (w_db w) (JStr j) = Some row"
      "\<not> db_faults (w_db w) (length (db_issued (w_db w)))
           (UpdStatusPathPaths (JStr j) ''COMPLETED'' k t)"
      "\<not> db_faults (w_db w) (Suc (length (db_issued (w_db w)))) (SelRecordPaths (JStr j))"
    and sign: "\<forall>n m key. s3_sign (w_s3 w) n key = s3_sign (w_s3 w) m key"
    and hook: "handle_webhook lib send_result_to_client None data w = (Inr resp, w1)"
  shows "fst (get_result_status lib j w1) =
           Inr \<lparr>sr_job_id = j, sr_status = Some ''COMPLETED'',
                sr_result_url = (case wr_result_urls resp of [] \<Rightarrow> None | u # us \<Rightarrow> Some u),
                sr_result_urls = Some (wr_result_urls resp)\<rparr>
         \<and> (\<forall>reg. active_connections (w_manager w) (JStr j) = Some reg
                  \<and> conn_send_ok (w_manager w) (reg_conn reg) \<longrightarrow>
                  delivered (w_manager w1) =
                    delivered (w_manager w) @ [(reg_conn reg, JStr j, wr_result_urls resp)])"
proof -
  define f where "f = s3_sign (w_s3 w) 0"
  have f: "\<And>i key. s3_sign (w_s3 w) i key = f key"
    using sign unfolding f_def by blast
  define urls where "urls = List.map_filter f (map JStr ps)"
  have ps: "ps \<noteq> []" using paths(2) by auto
  have cj: "complete_job lib send_result_to_client j k (Some ps) w = (Inr resp, w1)"
    using hook handle_webhook_complete [OF job key, of lib send_result_to_client w] paths(1)
    by simp
  have pre: "presign_each (map JStr ps) (w_s3 w) =
      (urls, (w_s3 w)\<lparr>s3_calls := s3_calls (w_s3 w) @ map JStr ps\<rparr>)"
    unfolding presign_each_eq urls_def
    by (simp add: map_filter_enumerate_const [of "s3_sign (w_s3 w)" f, OF f])
  have nonempty: "urls \<noteq> []"
  proof
    assume e: "urls = []"
    have "f (JStr k) = None"
      using map_filter_Nil_None [of f "map JStr ps" "JStr k"] e paths(2)
      by (simp add: urls_def)
    then have "fst (generate_urls k (Some ps) (w_s3 w)) = None"
      by (simp add: generate_urls_def all_keys_listed [OF paths(2)] pre e
            create_presigned_get_url_def f)
    then have "fst (complete_job lib send_result_to_client j k (Some ps) w) =
        Inl (HTTPException 500 ''Failed to generate presigned result URL(s)'')"
      by (simp add: complete_job_fst)
    with cj show False by simp
  qed
  have gen: "generate_urls k (Some ps) (w_s3 w) =
      (Some urls, (w_s3 w)\<lparr>s3_calls := s3_calls (w_s3 w) @ map JStr ps\<rparr>)"
    by (simp add: generate_urls_def all_keys_listed [OF paths(2)] pre nonempty)
  have resp: "wr_result_urls resp = urls"
    using cj
    by (auto simp add: complete_job_fst gen push_and_respond_fst prod_eq_iff accepted_def
          split: push_outcome.splits option.splits)
  have s3: "w_s3 w1 = (w_s3 w)\<lparr>s3_calls := s3_calls (w_s3 w) @ map JStr ps\<rparr>"
    using cj complete_job_s3 [of lib send_result_to_client j k "Some ps" w] by (simp add: gen)
  have json: "s3_paths_json lib (Some ps) = Some t"
    by (simp add: s3_paths_json_def ps dumps(1))
  have dbw: "w_db w1 =
      (w_db w)\<lparr>db_issued := db_issued (w_db w) @ [UpdStatusPathPaths (JStr j) ''COMPLETED'' k t],
               db_rows := apply_stmt (UpdStatusPathPaths (JStr j) ''COMPLETED'' k t)
                            (db_rows (w_db w))\<rparr>"
    using cj complete_job_db [of lib send_result_to_client j k "Some ps" w]
    by (simp add: persist_completed_eq [OF db(1)] json db(3) Let_def)
  have mgr: "w_manager w1 =
      snd (push_and_respond send_result_to_client (JStr j) urls (w_manager w))"
    using cj by (auto simp add: complete_job_def gen Let_def split: prod.splits option.splits)
  let ?rec = "\<lparr>rec_job_id = JStr j, rec_user_id = row_user_id row,
                rec_status = Some ''COMPLETED'', rec_s3_result_path = Some k,
                rec_s3_result_paths = Some (ColStr t)\<rparr>"
  have rec: "fst (get_upload_record (JStr j) (w_db w1)) = Returned (Some ?rec)"
    by (simp add: get_upload_record_def dbw db execute_def)
  have keys: "stored_keys lib ?rec = Some (JArr (map JStr ps))"
    by (simp add: stored_keys_def dumps(2) loads)
  have f1: "\<And>i key. s3_sign (w_s3 w1) i key = f key"
    by (simp add: s3 f)
  have "fst (get_result_status lib j w1) =
      Inr (status_answer j (Some ''COMPLETED'') (Some urls))"
    by (simp add: get_result_status_found [OF job(2) rec] keys ps Let_def
          map_filter_enumerate_const [of "s3_sign (w_s3 w1)" f, OF f1]
          urls_def [symmetric] nonempty)
  then have query: "fst (get_result_status lib j w1) =
      Inr \<lparr>sr_job_id = j, sr_status = Some ''COMPLETED'',
           sr_result_url = (case urls of [] \<Rightarrow> None | u # us \<Rightarrow> Some u),
           sr_result_urls = Some urls\<rparr>"
    by (simp add: status_answer_def split: list.split)
  show ?thesis
    using query send_result_to_client_delivered [of "w_manager w" "JStr j" _ urls]
    by (simp add: resp mgr)
qed

lemma all_keys_facts:
  assumes "key \<noteq> []"
  shows "let listed = (case paths of None \<Rightarrow> [] | Some ps \<Rightarrow> ps); keys = all_keys key paths
         in key \<in> set keys \<and> set keys = insert key (set listed)
          \<and> (key \<notin> set listed \<longrightarrow> keys = key # listed)
          \<and> (\<forall>rest. listed = key # rest \<longrightarrow> keys = listed)
          \<and> (distinct listed \<longrightarrow> distinct keys)"
  using assms by (auto simp add: all_keys_def Let_def split: option.split)

lemma sample_hook_a_b:
  "handle_webhook sample_lib send_result_to_client None body_a_b live_world =
     (Inr \<lparr>wr_status_code = 202, wr_message = ''Result pushed successfully.'',
           wr_result_urls = [''https://s3/a'', ''https://s3/b'']\<rparr>,
      completed_world ''a'' text_a_b [JStr ''a'', JStr ''b'']
        (live_manager\<lparr>delivered := [(7, JStr ''J1'', [''https://s3/a'', ''https://s3/b''])]\<rparr>))"
  by (simp add: handle_webhook_def complete_job_def body_a_b_def py_or_def live_world_def
        persist_completed_def update_upload_status_with_paths_def execute_def s3_paths_json_def
        sample_lib_def sample_db_def sample_row_def generate_urls_def all_keys_def
        create_presigned_get_url_def sample_s3_sign sample_s3_calls push_and_respond_def accepted_def
        send_result_to_client_def live_manager_def completed_world_def Let_def)

section \<open>The push outcome and the answer of the callback\<close>

text \<open>
  Claim C1, in the form that holds of the code.
  For a verified callback with a job id and a single location for which step 3 produced
  the URLs \<open>urls\<close> (so the push step is reached), the handler answers 202 with exactly
  \<open>urls\<close> when the push returns true, returns false, or raises an exception of class
  \<open>Exception\<close>: only the message depends on the push. A push that returns true gives
  "Result pushed successfully."; a push that returns false and a push that raises such an
  exception both give "Result URL(s) generated.". An exception outside the class
  \<open>Exception\<close> is not caught by the handler: it leaves the handler and no 202 is
  answered.
\<close>

theorem push_outcome_only_changes_message:
  assumes "wb_job_id data = Some j" and "j \<noteq> []"
    and "py_or (wb_s3_result_path data) (wb_s3_result_key data) = Some k" and "k \<noteq> []"
    and "generate_urls k (wb_s3_result_paths data) (w_s3 w) = (Some urls, c)"
  shows "fst (handle_webhook lib push None data w) =
           (case fst (push (w_manager w) (JStr j) urls) of
              PushReturned True \<Rightarrow>
                Inr \<lparr>wr_status_code = 202, wr_message = ''Result pushed successfully.'',
                     wr_result_urls = urls\<rparr>
            | PushReturned False \<Rightarrow>
                Inr \<lparr>wr_status_code = 202, wr_message = ''Result URL(s) generated.'',
                     wr_result_urls = urls\<rparr>
            | PushException \<Rightarrow>
                Inr \<lparr>wr_status_code = 202, wr_message = ''Result URL(s) generated.'',
                     wr_result_urls = urls\<rparr>
            | PushBaseException \<Rightarrow> Inl Escaped)"
  using assms
  by (simp add: handle_webhook_def complete_job_fst push_and_respond_fst accepted_def
        split: push_outcome.split bool.split)

text \<open>
  The callback for \<open>J1\<close> with a push that raises an exception of class \<open>Exception\<close>: 202,
  the URL, the not-pushed message.
\<close>

theorem push_outcome_only_changes_message_witness:
  "fst (handle_webhook sample_lib (\<lambda>m job urls. (PushException, m)) None body_single
          sample_world) =
     Inr \<lparr>wr_status_code = 202, wr_message = ''Result URL(s) generated.'',
          wr_result_urls = [''https://s3/out/J1.zip'']\<rparr>"
  using push_outcome_only_changes_message
          [of body_single "''J1''" "''out/J1.zip''" sample_world "[''https://s3/out/J1.zip'']"
              "sample_s3\<lparr>s3_calls := [JStr ''out/J1.zip'']\<rparr>" sample_lib
              "\<lambda>m job urls. (PushException, m)"]
        sample_generate_single
  by (simp add: body_single_def sample_world_def py_or_def)

text \<open>
  The same callback with a push that raises an exception outside the class \<open>Exception\<close>:
  the status is persisted and the URL is made, but the exception leaves the handler and
  there is no 202.
\<close>

theorem push_base_exception_escapes:
  "handle_webhook sample_lib (\<lambda>m job urls. (PushBaseException, m)) None body_single
     sample_world =
     (Inl Escaped,
      \<lparr>w_db = sample_db\<lparr>db_issued :=
                 [UpdStatusPath (JStr ''J1'') ''COMPLETED'' (Some ''out/J1.zip'')],
               db_rows := [JStr ''J1'' \<mapsto>
                 sample_row\<lparr>row_processing_status := Some ''COMPLETED'',
                            row_s3_result_path := Some ''out/J1.zip''\<rparr>]\<rparr>,
       w_s3 = sample_s3\<lparr>s3_calls := [JStr ''out/J1.zip'']\<rparr>,
       w_manager = idle_manager\<rparr>)"
  by (simp add: handle_webhook_def complete_job_def body_single_def py_or_def sample_world_def
        sample_generate_single push_and_respond_def accepted_def persist_completed_def
        update_upload_status_with_paths_def execute_def s3_paths_json_def sample_db_def Let_def)

section \<open>Which bodies the callback refuses\<close>

text \<open>
  Claim C4, in the form that holds of the code.
  A verified callback is refused with status 400 exactly when the
  job id is missing or empty, or no single location is given (\<open>s3_result_path\<close>, or else
  \<open>s3_result_key\<close>, missing or empty). The list \<open>s3_result_paths\<close> plays no part in the
  decision: it is optional, and a list without a single location is refused.
\<close>

theorem webhook_requires_job_id_and_single_location:
  "(fst (handle_webhook lib push None data w) =
       Inl (HTTPException 400 ''job_id and s3_result_path required''))
     = (\<not> str_truthy (wb_job_id data)
        \<or> \<not> str_truthy (py_or (wb_s3_result_path data) (wb_s3_result_key data)))"
  by (cases "wb_job_id data"; cases "py_or (wb_s3_result_path data) (wb_s3_result_key data)")
     (simp_all add: handle_webhook_def complete_job_fst split: option.split)

theorem webhook_requires_job_id_and_single_location_witness:
  "fst (handle_webhook sample_lib send_result_to_client None body_single sample_world) \<noteq>
     Inl (HTTPException 400 ''job_id and s3_result_path required'')"
  using webhook_requires_job_id_and_single_location
          [of sample_lib send_result_to_client body_single sample_world]
  by (simp add: body_single_def py_or_def)

text \<open>
  A verified callback that names \<open>J1\<close> and the list \<open>["a"]\<close>, with no single location, is
  refused with 400 and changes nothing.
\<close>

theorem list_only_callback_refused:
  "handle_webhook sample_lib send_result_to_client None body_list_only sample_world =
     (Inl (HTTPException 400 ''job_id and s3_result_path required''), sample_world)"
  by (simp add: handle_webhook_def body_list_only_def py_or_def)

section \<open>The status query and the registry\<close>

text \<open>
  Claim C8. The answer of the status query is decided by the job id, the database client
  and the S3 client alone: two states of the router that agree on those give the same
  answer, whatever their registries hold, and the query leaves the registry as it is.
\<close>

theorem status_query_independent_of_registry:
  assumes "w_db w1 = w_db w2" and "w_s3 w1 = w_s3 w2"
  shows "fst (get_result_status lib job_id w1) = fst (get_result_status lib job_id w2)
         \<and> w_manager (snd (get_result_status lib job_id w1)) = w_manager w1"
  using assms
  by (simp add: get_result_status_def split: prod.split py.split option.split)

theorem status_query_independent_of_registry_witness:
  "w_db sample_world = w_db live_world \<and> w_s3 sample_world = w_s3 live_world
   \<and> w_manager sample_world \<noteq> w_manager live_world
   \<and> fst (get_result_status sample_lib ''J1'' sample_world) =
       fst (get_result_status sample_lib ''J1'' live_world)
   \<and> w_manager (snd (get_result_status sample_lib ''J1'' sample_world)) = idle_manager"
proof -
  have db: "w_db sample_world = w_db live_world" and s3: "w_s3 sample_world = w_s3 live_world"
    by (simp_all add: sample_world_def live_world_def)
  have differ: "active_connections (w_manager sample_world) (JStr ''J1'')
                  \<noteq> active_connections (w_manager live_world) (JStr ''J1'')"
    by (simp add: sample_world_def live_world_def idle_manager_def live_manager_def)
  from status_query_independent_of_registry [OF db s3, of sample_lib "''J1''"] db s3 differ
  show ?thesis by (auto simp add: sample_world_def)
qed

section \<open>URL generation in the callback\<close>



section \<open>Persistence in the callback\<close>

text \<open>
  Claim C2, in the form that holds of the code.
  For a verified callback with a job id and a single location (the
  table name being configured), the first write is the richer one (status, single
  location and list; status and single location when the body has no list). If it is
  rejected, the write of status and single location follows; if that is rejected it is
  sent once more by the older helper, and then the status alone is written. The first
  write that is accepted ends the sequence and is the one applied. When every write is
  rejected the table is left as it was, the error is only printed, and the request does
  not fail: the answer of the callback is the same for every state of the database
  client.
\<close>

theorem persistence_falls_back_and_never_fails_request:
  assumes "wb_job_id data = Some j" and "j \<noteq> []"
    and "py_or (wb_s3_result_path data) (wb_s3_result_key data) = Some k" and "k \<noteq> []"
    and "db_table_name_set (w_db w)"
  shows "let d = w_db w; n = length (db_issued d);
             rich = (case s3_paths_json lib (wb_s3_result_paths data) of
                       Some ps \<Rightarrow> UpdStatusPathPaths (JStr j) ''COMPLETED'' k ps
                     | None \<Rightarrow> UpdStatusPath (JStr j) ''COMPLETED'' (Some k));
             basic = UpdStatusPath (JStr j) ''COMPLETED'' (Some k);
             least = UpdStatus (JStr j) ''COMPLETED'';
             d' = w_db (snd (handle_webhook lib push None data w))
         in (\<not> db_faults d n rich \<longrightarrow>
               db_issued d' = db_issued d @ [rich] \<and> db_rows d' = apply_stmt rich (db_rows d))
          \<and> (db_faults d n rich \<and> \<not> db_faults d (n + 1) basic \<longrightarrow>
               db_issued d' = db_issued d @ [rich, basic]
               \<and> db_rows d' = apply_stmt basic (db_rows d))
          \<and> (db_faults d n rich \<and> db_faults d (n + 1) basic \<and> \<not> db_faults d (n + 2) basic \<longrightarrow>
               db_issued d' = db_issued d @ [rich, basic, basic]
               \<and> db_rows d' = apply_stmt basic (db_rows d))
          \<and> (db_faults d n rich \<and> db_faults d (n + 1) basic \<and> db_faults d (n + 2) basic
               \<and> \<not> db_faults d (n + 3) least \<longrightarrow>
               db_issued d' = db_issued d @ [rich, basic, basic, least]
               \<and> db_rows d' = apply_stmt least (db_rows d))
          \<and> (db_faults d n rich \<and> db_faults d (n + 1) basic \<and> db_faults d (n + 2) basic
               \<and> db_faults d (n + 3) least \<longrightarrow>
               db_issued d' = db_issued d @ [rich, basic, basic, least] \<and> db_rows d' = db_rows d)
          \<and> (\<forall>d2. fst (handle_webhook lib push None data (w\<lparr>w_db := d2\<rparr>)) =
                     fst (handle_webhook lib push None data w))"
  unfolding handle_webhook_complete [OF assms(1-4)] complete_job_db complete_job_fst_db
    persist_completed_eq [OF assms(5)]
  by (simp add: Let_def)

text \<open>
  The store rejects the write with the list: the write of status and single location
  follows and is applied.
\<close>

theorem persistence_falls_back_and_never_fails_request_witness:
  "db_issued (w_db (snd (handle_webhook sample_lib send_result_to_client None body_a_b narrow_world)))
     = [UpdStatusPathPaths (JStr ''J1'') ''COMPLETED'' ''a'' text_a_b,
        UpdStatusPath (JStr ''J1'') ''COMPLETED'' (Some ''a'')]
   \<and> db_rows (w_db (snd (handle_webhook sample_lib send_result_to_client None body_a_b narrow_world)))
        (JStr ''J1'')
     = Some \<lparr>row_user_id = Some ''U1'', row_processing_status = Some ''COMPLETED'',
             row_s3_result_path = Some ''a'', row_s3_result_paths = None\<rparr>"
  using persistence_falls_back_and_never_fails_request
          [of body_a_b "''J1''" "''a''" narrow_world sample_lib send_result_to_client]
  by (simp add: body_a_b_def py_or_def narrow_world_def narrow_db_def Let_def s3_paths_json_def
        sample_lib_def sample_row_def)

text \<open>
  The store rejects every write: four writes are sent, the row of \<open>J1\<close> stays PENDING,
  and the callback still answers 202.
\<close>

theorem failed_persistence_still_accepted:
  "handle_webhook sample_lib send_result_to_client None body_single down_world =
     (Inr \<lparr>wr_status_code = 202, wr_message = ''Result URL(s) generated.'',
           wr_result_urls = [''https://s3/out/J1.zip'']\<rparr>,
      \<lparr>w_db = down_db\<lparr>db_issued :=
                 [UpdStatusPath (JStr ''J1'') ''COMPLETED'' (Some ''out/J1.zip''),
                  UpdStatusPath (JStr ''J1'') ''COMPLETED'' (Some ''out/J1.zip''),
                  UpdStatusPath (JStr ''J1'') ''COMPLETED'' (Some ''out/J1.zip''),
                  UpdStatus (JStr ''J1'') ''COMPLETED'']\<rparr>,
       w_s3 = sample_s3\<lparr>s3_calls := [JStr ''out/J1.zip'']\<rparr>,
       w_manager = idle_manager\<rparr>)
   \<and> db_rows down_db (JStr ''J1'') = Some sample_row
   \<and> row_processing_status sample_row = Some ''PENDING''"
  by (simp add: handle_webhook_def complete_job_def body_single_def py_or_def down_world_def
        sample_generate_single push_and_respond_def accepted_def send_result_to_client_def idle_manager_def
        persist_completed_def update_upload_status_with_paths_def update_upload_status_def
        execute_def s3_paths_json_def down_db_def sample_row_def Let_def)

section \<open>The handshake: unknown jobs and foreign jobs\<close>

text \<open>
  Claim C5. When the first message is a register request naming a job id and the owner
  lookup returns no owner, then, whatever credential the connection presents and whatever
  the resolver makes of it: if the send and the close go through, the handler sends the
  payload \<open>{"error": "job_not_found"}\<close> and closes with code 1008 (policy violation),
  and the registry is unchanged. In every case the manager's \<open>connect\<close> is not called and
  no registration appears in the registry. The payload differs from the one of the
  authorization failure.
\<close>

theorem unknown_job_closes_with_not_found:
  assumes "ws_incoming ws = msg # rest"
    and "json_loads lib msg = Some (JObj payload)"
    and "map_of payload ''action'' = Some (JStr ''register'')"
    and "map_of payload ''job_id'' = Some job_id" and "py_truthy job_id"
    and "fst (get_job_owner job_id (w_db w)) = Returned None"
  shows "let r = websocket_preconnect lib resolve ws w;
             not_found = JObj [(''error'', JStr ''job_not_found'')]
         in (\<not> ws_raises ws (SendJson not_found) \<and> \<not> ws_raises ws (Close 1008) \<longrightarrow>
               hs_trace r = [SendJson not_found, Close 1008]
               \<and> w_manager (hs_world r) = w_manager w)
          \<and> (\<forall>j c u. Connect j c u \<notin> set (hs_trace r))
          \<and> (\<forall>j reg. active_connections (w_manager (hs_world r)) j = Some reg \<longrightarrow>
                       active_connections (w_manager w) j = Some reg)
          \<and> (\<forall>resolve' proto token cookies.
                websocket_preconnect lib resolve'
                  (ws\<lparr>ws_protocol := proto, ws_query_token := token, ws_cookies := cookies\<rparr>) w = r)
          \<and> not_found \<noteq> JObj [(''error'', JStr ''forbidden'')]"
proof -
  have r: "websocket_preconnect lib resolve ws w = register_job resolve ws job_id rest w"
    by (rule websocket_preconnect_register [OF assms(1-5)])
  have r': "websocket_preconnect lib resolve'
              (ws\<lparr>ws_protocol := proto, ws_query_token := token, ws_cookies := cookies\<rparr>) w
            = register_job resolve'
                (ws\<lparr>ws_protocol := proto, ws_query_token := token, ws_cookies := cookies\<rparr>)
                job_id rest w" for resolve' proto token cookies
    using assms(1-5) by (simp add: websocket_preconnect_def)
  show ?thesis
    unfolding r r' register_job_not_found [OF assms(6)] Let_def
    by (auto simp add: send_and_close_def cleanup_def disconnect_def split: if_splits)
qed

text \<open>A valid credential of \<open>U1\<close> against a store that has no job \<open>J1\<close>.\<close>

theorem unknown_job_closes_with_not_found_witness:
  "hs_trace (websocket_preconnect sample_lib sample_resolver ws_U1 empty_world) =
     [SendJson (JObj [(''error'', JStr ''job_not_found'')]), Close 1008]
   \<and> w_manager (hs_world (websocket_preconnect sample_lib sample_resolver ws_U1 empty_world)) =
       idle_manager"
proof -
  have loads: "json_loads sample_lib text_register_J1 =
      Some (JObj [(''action'', JStr ''register''), (''job_id'', JStr ''J1'')])"
    by (simp add: sample_lib_def text_register_J1_def text_a_b_def text_b_def text_b_b_def
          quoted_def)
  have owner: "fst (get_job_owner (JStr ''J1'') (w_db empty_world)) = Returned None"
    by (simp add: get_job_owner_def empty_world_def empty_db_def execute_def)
  from unknown_job_closes_with_not_found
         [of ws_U1 text_register_J1 "[]" sample_lib
             "[(''action'', JStr ''register''), (''job_id'', JStr ''J1'')]" "JStr ''J1''" empty_world
             sample_resolver]
       loads owner
  show ?thesis by (simp add: ws_U1_def empty_world_def Let_def)
qed

text \<open>
  Claim C6. When the first message is a register request naming a job id whose owner
  lookup returns an owner, the manager's \<open>connect\<close> is called only if the credential
  resolves to an identity equal to that owner, and then it is called for this job id,
  this connection and that identity. If the identity is absent or differs, then, the send
  and the close going through, the handler sends the payload \<open>{"error": "forbidden"}\<close>
  and closes with code 1008, the registry is unchanged, and in every case no
  registration appears in the registry.
\<close>

theorem registration_requires_owner_identity:
  assumes "ws_incoming ws = msg # rest"
    and "json_loads lib msg = Some (JObj payload)"
    and "map_of payload ''action'' = Some (JStr ''register'')"
    and "map_of payload ''job_id'' = Some job_id" and "py_truthy job_id"
    and "fst (get_job_owner job_id (w_db w)) = Returned (Some owner_id)"
  shows "let r = websocket_preconnect lib resolve ws w;
             user_id = resolve_user_id resolve (extract_token ws);
             forbidden = JObj [(''error'', JStr ''forbidden'')]
         in ((\<exists>j c u. Connect j c u \<in> set (hs_trace r)) \<longrightarrow> user_id = Some owner_id)
          \<and> (user_id = Some owner_id \<longrightarrow>
               (\<exists>tr. hs_trace r = Connect job_id (ws_id ws) owner_id # tr))
          \<and> (user_id \<noteq> Some owner_id \<longrightarrow>
               (\<not> ws_raises ws (SendJson forbidden) \<and> \<not> ws_raises ws (Close 1008) \<longrightarrow>
                  hs_trace r = [SendJson forbidden, Close 1008]
                  \<and> w_manager (hs_world r) = w_manager w)
               \<and> (\<forall>j reg. active_connections (w_manager (hs_world r)) j = Some reg \<longrightarrow>
                            active_connections (w_manager w) j = Some reg))"
  unfolding websocket_preconnect_register [OF assms(1-5)] register_job_owner [OF assms(6)] Let_def
  by (auto simp add: send_and_close_def cleanup_def disconnect_def split: if_splits)

text \<open>A valid credential of \<open>U2\<close> against the job \<open>J1\<close> of \<open>U1\<close>.\<close>

theorem registration_requires_owner_identity_witness:
  "resolve_user_id sample_resolver (extract_token ws_U2) = Some ''U2''
   \<and> hs_trace (websocket_preconnect sample_lib sample_resolver ws_U2 sample_world) =
       [SendJson (JObj [(''error'', JStr ''forbidden'')]), Close 1008]
   \<and> w_manager (hs_world (websocket_preconnect sample_lib sample_resolver ws_U2 sample_world)) =
       idle_manager"
proof -
  have loads: "json_loads sample_lib text_register_J1 =
      Some (JObj [(''action'', JStr ''register''), (''job_id'', JStr ''J1'')])"
    by (simp add: sample_lib_def text_register_J1_def text_a_b_def text_b_def text_b_b_def
          quoted_def)
  have owner: "fst (get_job_owner (JStr ''J1'') (w_db sample_world)) = Returned (Some ''U1'')"
    by (simp add: get_job_owner_def sample_world_def sample_db_def sample_row_def execute_def)
  have user: "resolve_user_id sample_resolver (extract_token ws_U2) = Some ''U2''"
    by (simp add: resolve_user_id_def extract_token_def ws_U2_def sample_resolver_def py_or_def)
  from registration_requires_owner_identity
         [of ws_U2 text_register_J1 "[]" sample_lib
             "[(''action'', JStr ''register''), (''job_id'', JStr ''J1'')]" "JStr ''J1''" sample_world
             "''U1''" sample_resolver]
       loads owner user
  show ?thesis by (simp add: ws_U2_def sample_world_def Let_def)
qed

section \<open>The status query on a COMPLETED record\<close>

text \<open>
  Claim C10, in the form that holds of the code.
  For a COMPLETED record whose stored list field is a non-empty
  text that does not decode as JSON, the status query does not fail and does not ignore
  the field: whatever the stored single location is, exactly one URL is requested, for
  the whole text as one location, and the answer carries that URL as \<open>result_url\<close> and
  as the only element of \<open>result_urls\<close>, or no URL when the request fails.
\<close>

theorem undecodable_list_text_is_one_location:
  assumes "job_id \<noteq> []"
    and "fst (get_upload_record (JStr job_id) (w_db w)) = Returned (Some rec)"
    and "rec_status rec = Some ''COMPLETED''"
    and "rec_s3_result_paths rec = Some (ColStr s)" and "s \<noteq> []"
    and "json_loads lib s = None"
  shows "let r = get_result_status lib job_id w; c = w_s3 w;
             answer = s3_sign c (length (s3_calls c)) (JStr s)
         in s3_calls (w_s3 (snd r)) = s3_calls c @ [JStr s]
          \<and> fst r = Inr \<lparr>sr_job_id = job_id, sr_status = Some ''COMPLETED'',
                         sr_result_url = answer,
                         sr_result_urls = map_option (\<lambda>u. [u]) answer\<rparr>"
proof -
  have keys: "stored_keys lib rec = Some (JArr [JStr s])"
    using assms(4-6) by (simp add: stored_keys_def)
  show ?thesis
    unfolding Let_def
    using get_result_status_calls [OF assms(1-3) keys, of "[JStr s]"]
    by (simp add: get_result_status_found [OF assms(1,2)] assms(3) keys status_answer_def
          split: option.split)
qed

text \<open>The list column holds \<open>out/J1.zip\<close>, which is not JSON; the single location is \<open>a\<close>.\<close>

theorem undecodable_list_text_is_one_location_witness:
  "fst (get_result_status sample_lib ''J1''
          (world_with_paths (Some ''a'') (Some (ColStr ''out/J1.zip'')))) =
     Inr \<lparr>sr_job_id = ''J1'', sr_status = Some ''COMPLETED'',
          sr_result_url = Some ''https://s3/out/J1.zip'',
          sr_result_urls = Some [''https://s3/out/J1.zip'']\<rparr>
   \<and> s3_calls (w_s3 (snd (get_result_status sample_lib ''J1''
          (world_with_paths (Some ''a'') (Some (ColStr ''out/J1.zip'')))))) = [JStr ''out/J1.zip'']"
proof -
  let ?w = "world_with_paths (Some ''a'') (Some (ColStr ''out/J1.zip''))"
  let ?rec = "\<lparr>rec_job_id = JStr ''J1'', rec_user_id = Some ''U1'',
                rec_status = Some ''COMPLETED'', rec_s3_result_path = Some ''a'',
                rec_s3_result_paths = Some (ColStr ''out/J1.zip'')\<rparr>"
  have rec: "fst (get_upload_record (JStr ''J1'') (w_db ?w)) = Returned (Some ?rec)"
    by (simp add: get_upload_record_def world_with_paths_def sample_db_def execute_def)
  have loads: "json_loads sample_lib ''out/J1.zip'' = None"
    by (simp add: sample_lib_def text_a_b_def text_b_def text_b_b_def text_register_J1_def
          quoted_def)
  have "rec_status ?rec = Some ''COMPLETED''"
    and "rec_s3_result_paths ?rec = Some (ColStr ''out/J1.zip'')"
    and "''J1'' \<noteq> []" and "''out/J1.zip'' \<noteq> []"
    by simp_all
  from undecodable_list_text_is_one_location [OF this(3) rec this(1,2,4) loads]
  have "let r = get_result_status sample_lib ''J1'' ?w; c = w_s3 ?w;
            answer = s3_sign c (length (s3_calls c)) (JStr ''out/J1.zip'')
        in s3_calls (w_s3 (snd r)) = s3_calls c @ [JStr ''out/J1.zip'']
         \<and> fst r = Inr \<lparr>sr_job_id = ''J1'', sr_status = Some ''COMPLETED'',
                        sr_result_url = answer,
                        sr_result_urls = map_option (\<lambda>u. [u]) answer\<rparr>" .
  moreover have "w_s3 ?w = sample_s3"
    by (simp add: world_with_paths_def)
  moreover have "s3_calls sample_s3 = []"
    and "s3_sign sample_s3 0 (JStr ''out/J1.zip'') = Some ''https://s3/out/J1.zip''"
    by (simp_all add: sample_s3_def)
  ultimately show ?thesis by (simp add: Let_def)
qed

text \<open>
  The list column holds the empty text, which does not decode as JSON either: the field
  is ignored and the URL is made for the single location \<open>a\<close>.
\<close>

theorem empty_list_text_is_ignored:
  "json_loads sample_lib [] = None
   \<and> fst (get_result_status sample_lib ''J1'' (world_with_paths (Some ''a'') (Some (ColStr [])))) =
       Inr \<lparr>sr_job_id = ''J1'', sr_status = Some ''COMPLETED'',
            sr_result_url = Some ''https://s3/a'', sr_result_urls = Some [''https://s3/a'']\<rparr>
   \<and> s3_calls (w_s3 (snd (get_result_status sample_lib ''J1''
          (world_with_paths (Some ''a'') (Some (ColStr [])))))) = [JStr ''a'']"
  by (simp add: get_result_status_def get_upload_record_def world_with_paths_def sample_db_def
        execute_def stored_keys_def create_presigned_get_url_def sample_s3_def status_answer_def
        sample_lib_def text_a_b_def text_b_def text_b_b_def text_register_J1_def quoted_def)




section \<open>The normalized list, the push and the status query\<close>

text \<open>
  Claim C3, in the form that holds of the code.
  The list the handler makes from a single location and a list of
  locations holds the single location and the listed locations and nothing else. When the
  single location is not in the list it is put in front of it; when it is the first of
  the list, the list is kept; a list without duplicates stays without duplicates. In
  particular the list \<open>["a", "b"]\<close> with the single location \<open>a\<close> gives \<open>a, b\<close>, of
  length 2. When the single location is in the list, the list text is written and read
  back as it was (the first write and the first read are not rejected, the job has a
  row), and the signer answers a key the same way at every call, then a callback that is
  accepted delivers to the registered connection exactly the URLs the status query
  answers for the state the callback left.
\<close>

theorem normalized_locations_and_delivery:
  "(\<forall>key paths. key \<noteq> [] \<longrightarrow>
      (let listed = (case paths of None \<Rightarrow> [] | Some ps \<Rightarrow> ps); keys = all_keys key paths
       in key \<in> set keys \<and> set keys = insert key (set listed)
        \<and> (key \<notin> set listed \<longrightarrow> keys = key # listed)
        \<and> (\<forall>rest. listed = key # rest \<longrightarrow> keys = listed)
        \<and> (distinct listed \<longrightarrow> distinct keys)))
   \<and> all_keys ''a'' (Some [''a'', ''b'']) = [''a'', ''b'']
   \<and> length (all_keys ''a'' (Some [''a'', ''b''])) = 2
   \<and> (\<forall>data j k ps lib t w row resp w1.
        wb_job_id data = Some j \<and> j \<noteq> []
        \<and> py_or (wb_s3_result_path data) (wb_s3_result_key data) = Some k \<and> k \<noteq> []
        \<and> wb_s3_result_paths data = Some ps \<and> k \<in> set ps
        \<and> json_dumps lib (JArr (map JStr ps)) = Some t \<and> t \<noteq> []
        \<and> json_loads lib t = Some (JArr (map JStr ps))
        \<and> db_table_name_set (w_db w) \<and> db_rows (w_db w) (JStr j) = Some row
        \<and> \<not> db_faults (w_db w) (length (db_issued (w_db w)))
               (UpdStatusPathPaths (JStr j) ''COMPLETED'' k t)
        \<and> \<not> db_faults (w_db w) (Suc (length (db_issued (w_db w)))) (SelRecordPaths (JStr j))
        \<and> (\<forall>n m key. s3_sign (w_s3 w) n key = s3_sign (w_s3 w) m key)
        \<and> handle_webhook lib send_result_to_client None data w = (Inr resp, w1)
        \<longrightarrow>
          fst (get_result_status lib j w1) =
            Inr \<lparr>sr_job_id = j, sr_status = Some ''COMPLETED'',
                 sr_result_url = (case wr_result_urls resp of [] \<Rightarrow> None | u # us \<Rightarrow> Some u),
                 sr_result_urls = Some (wr_result_urls resp)\<rparr>
          \<and> (\<forall>reg. active_connections (w_manager w) (JStr j) = Some reg
                   \<and> conn_send_ok (w_manager w) (reg_conn reg) \<longrightarrow>
                   delivered (w_manager w1) =
                     delivered (w_manager w) @ [(reg_conn reg, JStr j, wr_result_urls resp)]))"
  apply (intro conjI)
  subgoal using all_keys_facts by blast
  subgoal by (simp add: all_keys_def)
  subgoal by (simp add: all_keys_def)
  subgoal by (intro allI impI, elim conjE, rule push_matches_status_query)
  done

text \<open>
  The callback for \<open>J1\<close> with the list \<open>["a", "b"]\<close> and the single location \<open>a\<close>, a
  connection being registered: the push and the status query carry the same two URLs.
\<close>

theorem normalized_locations_and_delivery_witness:
  "fst (get_result_status sample_lib ''J1''
          (snd (handle_webhook sample_lib send_result_to_client None body_a_b live_world))) =
     Inr \<lparr>sr_job_id = ''J1'', sr_status = Some ''COMPLETED'',
          sr_result_url = Some ''https://s3/a'',
          sr_result_urls = Some [''https://s3/a'', ''https://s3/b'']\<rparr>
   \<and> delivered (w_manager (snd (handle_webhook sample_lib send_result_to_client None body_a_b
         live_world))) = [(7, JStr ''J1'', [''https://s3/a'', ''https://s3/b''])]"
proof -
  let ?resp = "\<lparr>wr_status_code = 202, wr_message = ''Result pushed successfully.'',
                 wr_result_urls = [''https://s3/a'', ''https://s3/b'']\<rparr>"
  let ?w1 = "completed_world ''a'' text_a_b [JStr ''a'', JStr ''b'']
               (live_manager\<lparr>delivered := [(7, JStr ''J1'', [''https://s3/a'', ''https://s3/b''])]\<rparr>)"
  note delivery = normalized_locations_and_delivery
    [THEN conjunct2, THEN conjunct2, THEN conjunct2, rule_format,
      where data = body_a_b and j = "''J1''" and k = "''a''" and ps = "[''a'', ''b'']"
        and lib = sample_lib and t = text_a_b and w = live_world and row = sample_row
        and resp = ?resp and ?w1.0 = ?w1,
      unfolded conj_imp_eq_imp_imp, THEN conjunct1]
  have "fst (get_result_status sample_lib ''J1'' ?w1) =
     Inr \<lparr>sr_job_id = ''J1'', sr_status = Some ''COMPLETED'',
          sr_result_url = (case wr_result_urls ?resp of [] \<Rightarrow> None | u # us \<Rightarrow> Some u),
          sr_result_urls = Some (wr_result_urls ?resp)\<rparr>"
  proof (rule delivery)
    show "handle_webhook sample_lib send_result_to_client None body_a_b live_world = (Inr ?resp, ?w1)"
      by (rule sample_hook_a_b)
  qed (simp_all add: body_a_b_def py_or_def sample_lib_def text_a_b_def quoted_def
         live_world_def sample_db_def sample_s3_def)
  then show ?thesis
    by (simp add: sample_hook_a_b completed_world_def)
qed

text \<open>
  The single location \<open>a\<close> with the list \<open>["b", "a"]\<close> gives \<open>b, a\<close>; with the list
  \<open>["b", "b"]\<close> it gives \<open>a, b, b\<close>, the push delivers three URLs and the status query
  answers two.
\<close>

theorem unlisted_primary_and_duplicates:
  "all_keys ''a'' (Some [''b'', ''a'']) = [''b'', ''a'']
   \<and> all_keys ''a'' (Some [''b'', ''b'']) = [''a'', ''b'', ''b'']
   \<and> delivered (w_manager (snd (handle_webhook sample_lib send_result_to_client None body_a_b_b
         live_world))) = [(7, JStr ''J1'', [''https://s3/a'', ''https://s3/b'', ''https://s3/b''])]
   \<and> fst (get_result_status sample_lib ''J1''
          (snd (handle_webhook sample_lib send_result_to_client None body_a_b_b live_world))) =
       Inr \<lparr>sr_job_id = ''J1'', sr_status = Some ''COMPLETED'',
            sr_result_url = Some ''https://s3/b'',
            sr_result_urls = Some [''https://s3/b'', ''https://s3/b'']\<rparr>"
proof -
  have hook: "handle_webhook sample_lib send_result_to_client None body_a_b_b live_world =
     (Inr \<lparr>wr_status_code = 202, wr_message = ''Result pushed successfully.'',
           wr_result_urls = [''https://s3/a'', ''https://s3/b'', ''https://s3/b'']\<rparr>,
      completed_world ''a'' text_b_b [JStr ''a'', JStr ''b'', JStr ''b'']
        (live_manager\<lparr>delivered :=
           [(7, JStr ''J1'', [''https://s3/a'', ''https://s3/b'', ''https://s3/b''])]\<rparr>))"
    by (simp add: handle_webhook_def complete_job_def body_a_b_b_def py_or_def live_world_def
          persist_completed_def update_upload_status_with_paths_def execute_def s3_paths_json_def
          sample_lib_def sample_db_def sample_row_def generate_urls_def all_keys_def
          create_presigned_get_url_def sample_s3_sign sample_s3_calls push_and_respond_def accepted_def
          send_result_to_client_def live_manager_def completed_world_def Let_def)
  have query: "fst (get_result_status sample_lib ''J1''
      (completed_world ''a'' text_b_b [JStr ''a'', JStr ''b'', JStr ''b'']
        (live_manager\<lparr>delivered :=
           [(7, JStr ''J1'', [''https://s3/a'', ''https://s3/b'', ''https://s3/b''])]\<rparr>))) =
       Inr \<lparr>sr_job_id = ''J1'', sr_status = Some ''COMPLETED'',
            sr_result_url = Some ''https://s3/b'',
            sr_result_urls = Some [''https://s3/b'', ''https://s3/b'']\<rparr>"
    by (simp add: get_result_status_def get_upload_record_def completed_world_def sample_db_def
          execute_def stored_keys_def sample_lib_def text_a_b_def text_b_def text_b_b_def quoted_def
          create_presigned_get_url_def sample_s3_sign status_answer_def)
  show ?thesis
    unfolding hook using query by (simp add: all_keys_def completed_world_def)
qed

end
